theory Spec2Isabelle
  imports Main
begin

section \<open>Data model of the session controller (AuthContext.tsx)\<close>

text \<open>
  The interfaces \<open>User\<close>, \<open>Profile\<close> and \<open>UserData\<close> of the source. Two interfaces
  share the field names \<open>createdAt\<close> and \<open>updatedAt\<close>, and \<open>id\<close> is a HOL constant, so
  the fields of \<open>User\<close> carry the prefix \<open>user_\<close>. An optional field (\<open>name?\<close>) is an
  \<open>option\<close>.
\<close>

record Profile =
  name :: "string option"
  email :: "string option"
  avatar :: "string option"
  createdAt :: string
  updatedAt :: string

record User =
  user_id :: string
  walletAddress :: string
  user_createdAt :: string
  user_updatedAt :: string

record UserData =
  user :: User
  profile :: "Profile option"

text \<open>
  The interfaces are erased when the program runs: the cell \<open>userData\<close> holds whatever
  \<open>response.json()\<close> gave, which the code never inspects. So the value of that cell is a
  parsed JSON value: \<open>json option\<close>, with \<open>None\<close> for \<open>null\<close>, inside objects and arrays
  too. Numbers are given as integers. A well-formed \<open>UserData\<close> is the object that
  \<open>UserData_json\<close> builds, an optional field being absent when it has no value.
\<close>

datatype json =
    JBool bool
  | JNum int
  | JStr string
  | JArr "json option list"
  | JObj "(string \<times> json option) list"

definition opt_field :: "string \<Rightarrow> string option \<Rightarrow> (string \<times> json option) list" where
  "opt_field key v = (case v of None \<Rightarrow> [] | Some x \<Rightarrow> [(key, Some (JStr x))])"

definition Profile_json :: "Profile \<Rightarrow> json" where
  "Profile_json p =
     JObj (opt_field ''name'' (name p) @ opt_field ''email'' (email p) @
           opt_field ''avatar'' (avatar p) @
           [(''createdAt'', Some (JStr (createdAt p))),
            (''updatedAt'', Some (JStr (updatedAt p)))])"

definition User_json :: "User \<Rightarrow> json" where
  "User_json u =
     JObj [(''id'', Some (JStr (user_id u))),
           (''walletAddress'', Some (JStr (walletAddress u))),
           (''createdAt'', Some (JStr (user_createdAt u))),
           (''updatedAt'', Some (JStr (user_updatedAt u)))]"

definition UserData_json :: "UserData \<Rightarrow> json" where
  "UserData_json d =
     JObj [(''user'', Some (User_json (user d))),
           (''profile'', map_option Profile_json (profile d))]"

text \<open>\<open>Partial<Profile>\<close>, the argument of \<open>createOrUpdateProfile\<close>: every field optional.\<close>

record PartialProfile =
  p_name :: "string option"
  p_email :: "string option"
  p_avatar :: "string option"
  p_createdAt :: "string option"
  p_updatedAt :: "string option"

subsection \<open>Thrown values and the outcome of an asynchronous call\<close>

text \<open>
  A value thrown in JavaScript is either an \<open>Error\<close> object, of which the code reads
  the \<open>message\<close>, or anything else. Every \<open>catch\<close> block of the controller computes
  \<open>err instanceof Error ? err.message : fallback\<close>.
\<close>

datatype thrown = JsError string | OtherThrown

fun err_message :: "thrown \<Rightarrow> string \<Rightarrow> string" where
  "err_message (JsError m) fallback = m"
| "err_message OtherThrown fallback = fallback"

text \<open>How a call of an \<open>async\<close> function ends for its caller.\<close>

datatype completion = Returned | Threw thrown

subsection \<open>The network\<close>

text \<open>
  The requests the controller issues, one constructor for each \<open>fetch\<close> call of the
  source; the arguments are what is serialised into the request body.
\<close>

datatype http_method = GET | POST | DELETE

datatype request =
    GetNonce
  | PostVerify string string
  | PostLogout
  | GetStatus
  | GetProfile
  | PostProfile PartialProfile
  | DeleteProfile

fun req_method :: "request \<Rightarrow> http_method" where
  "req_method GetNonce = GET"
| "req_method (PostVerify m sg) = POST"
| "req_method PostLogout = POST"
| "req_method GetStatus = GET"
| "req_method GetProfile = GET"
| "req_method (PostProfile d) = POST"
| "req_method DeleteProfile = DELETE"

fun req_path :: "request \<Rightarrow> string" where
  "req_path GetNonce = ''/auth/nonce''"
| "req_path (PostVerify m sg) = ''/auth/verify''"
| "req_path PostLogout = ''/auth/logout''"
| "req_path GetStatus = ''/auth/status''"
| "req_path GetProfile = ''/a/profile''"
| "req_path (PostProfile d) = ''/a/profile''"
| "req_path DeleteProfile = ''/a/profile''"

text \<open>
  What \<open>await fetch(...)\<close> gives: the promise is rejected with a thrown value (the
  endpoint is unreachable), or it resolves to a response with its \<open>ok\<close> flag (a 2xx
  status) and a body. The body is given as the result of reading it
  (\<open>response.text()\<close>, \<open>response.json()\<close>): \<open>Inl\<close> when reading throws (a body that is
  not JSON), \<open>Inr\<close> with what the code takes from it otherwise. For \<open>GET /a/profile\<close>
  that is the parsed value itself, whatever its shape, \<open>null\<close> included: the code stores
  it without looking at it. For the nonce it is the text. For the verification and the
  status the code reads one field of the parsed value, \<open>result.success\<close> and
  \<open>authenticated\<close>, and the body is given as the truth value of that field; a parsed
  body from which the field cannot be read (\<open>null\<close>) throws a \<open>TypeError\<close> in the
  source and is an \<open>Inl\<close> for these two endpoints.
\<close>

datatype 'a fetch_result = Rejected thrown | Response bool "thrown + 'a"

text \<open>
  The collaborators of the controller, which the source treats as black boxes: the
  server behind each endpoint, the SIWE library (\<open>createSiweMessage\<close>, from the address
  and the nonce) and the wallet (\<open>signMessageAsync\<close>).
\<close>

record env =
  nonce_fetch :: "string fetch_result"
  createSiweMessage :: "string \<Rightarrow> string \<Rightarrow> thrown + string"
  signMessageAsync :: "string \<Rightarrow> thrown + string"
  verify_fetch :: "string \<Rightarrow> string \<Rightarrow> bool fetch_result"
  logout_fetch :: "unit fetch_result"
  status_fetch :: "bool fetch_result"
  profile_get :: "json option fetch_result"
  profile_post :: "PartialProfile \<Rightarrow> unit fetch_result"
  profile_delete :: "unit fetch_result"

subsection \<open>The state\<close>

text \<open>
  The four \<open>useState\<close> cells of \<open>AuthProvider\<close> (\<open>userData\<close> is \<open>None\<close> when it is
  \<open>null\<close>), together with the two things the
  controller does to the outside: the requests issued so far and the lines written with
  \<open>console.error\<close>, both oldest first. Every setter of the source is called with a
  value, never with an updater function, so the state after a call is the state with the
  setters applied in program order.
\<close>

record auth_state =
  isAuthenticated :: bool
  isLoading :: bool
  error :: "string option"
  userData :: "json option"
  requests :: "request list"
  console :: "string list"

definition initial_state :: auth_state where
  "initial_state =
     \<lparr>isAuthenticated = False, isLoading = False, error = None, userData = None,
      requests = [], console = []\<rparr>"

definition fetch ::
  "request \<Rightarrow> 'a fetch_result \<Rightarrow> auth_state \<Rightarrow> (thrown + bool \<times> (thrown + 'a)) \<times> auth_state"
where
  "fetch rq res s =
     (case res of Rejected e \<Rightarrow> Inl e | Response k b \<Rightarrow> Inr (k, b),
      s\<lparr>requests := requests s @ [rq]\<rparr>)"

definition console_error :: "string \<Rightarrow> auth_state \<Rightarrow> auth_state" where
  "console_error line s = s\<lparr>console := console s @ [line]\<rparr>"

section \<open>The operations of the controller\<close>

subsection \<open>fetchUserData\<close>

definition fetchUserData :: "env \<Rightarrow> auth_state \<Rightarrow> completion \<times> auth_state" where
  "fetchUserData ev s =
     (case fetch GetProfile (profile_get ev) s of
        (Inl err, s1) \<Rightarrow>
          (Returned, (console_error ''Error fetching user data:'' s1)\<lparr>userData := None\<rparr>)
      | (Inr (k, body), s1) \<Rightarrow>
          if k then
            (case body of
               Inl err \<Rightarrow>
                 (Returned, (console_error ''Error fetching user data:'' s1)\<lparr>userData := None\<rparr>)
             | Inr data \<Rightarrow> (Returned, s1\<lparr>userData := data\<rparr>))
          else (Returned, (console_error ''Failed to fetch user data'' s1)\<lparr>userData := None\<rparr>))"

subsection \<open>logout\<close>

definition logout_try :: "env \<Rightarrow> auth_state \<Rightarrow> (thrown + unit) \<times> auth_state" where
  "logout_try ev s =
     (case fetch PostLogout (logout_fetch ev) s of
        (Inl err, s1) \<Rightarrow> (Inl err, s1)
      | (Inr resp, s1) \<Rightarrow> (Inr (), s1\<lparr>isAuthenticated := False, userData := None\<rparr>))"

definition logout :: "env \<Rightarrow> auth_state \<Rightarrow> completion \<times> auth_state" where
  "logout ev s =
     (case logout_try ev (s\<lparr>isLoading := True, error := None\<rparr>) of
        (Inl err, s1) \<Rightarrow>
          (Returned, s1\<lparr>error := Some (err_message err ''Logout failed''), isLoading := False\<rparr>)
      | (Inr u, s1) \<Rightarrow> (Returned, s1\<lparr>isLoading := False\<rparr>))"

subsection \<open>getNonce and authenticate\<close>

definition getNonce :: "env \<Rightarrow> auth_state \<Rightarrow> (thrown + string) \<times> auth_state" where
  "getNonce ev s =
     (case fetch GetNonce (nonce_fetch ev) s of
        (Inl err, s1) \<Rightarrow> (Inl err, s1)
      | (Inr (k, body), s1) \<Rightarrow>
          if \<not> k then (Inl (JsError ''Failed to get nonce''), s1) else (body, s1))"

text \<open>
  \<open>address\<close> comes from the wallet hook and is a string or \<open>undefined\<close>; \<open>!address\<close>
  holds for \<open>undefined\<close> and for the empty string.
\<close>

fun no_address :: "string option \<Rightarrow> bool" where
  "no_address None = True"
| "no_address (Some a) = (a = [])"

text \<open>The \<open>try\<close> block of \<open>authenticate\<close>: steps 1 to 4, each of which may throw.\<close>

definition authenticate_try ::
  "env \<Rightarrow> string \<Rightarrow> auth_state \<Rightarrow> (thrown + unit) \<times> auth_state"
where
  "authenticate_try ev addr s =
     (case getNonce ev s of
        (Inl err, s1) \<Rightarrow> (Inl err, s1)
      | (Inr nonce, s1) \<Rightarrow>
     (case createSiweMessage ev addr nonce of
        Inl err \<Rightarrow> (Inl err, s1)
      | Inr message \<Rightarrow>
     (case signMessageAsync ev message of
        Inl err \<Rightarrow> (Inl err, s1)
      | Inr signature \<Rightarrow>
     (case fetch (PostVerify message signature) (verify_fetch ev message signature) s1 of
        (Inl err, s2) \<Rightarrow> (Inl err, s2)
      | (Inr (k, body), s2) \<Rightarrow>
          if \<not> k then (Inl (JsError ''Authentication failed''), s2)
          else
            (case body of
               Inl err \<Rightarrow> (Inl err, s2)
             | Inr success \<Rightarrow>
                 if success then
                   (case fetchUserData ev (s2\<lparr>isAuthenticated := True\<rparr>) of
                      (Returned, s3) \<Rightarrow> (Inr (), s3)
                    | (Threw err, s3) \<Rightarrow> (Inl err, s3))
                 else (Inl (JsError ''Authentication verification failed''), s2))))))"

definition authenticate :: "env \<Rightarrow> string option \<Rightarrow> auth_state \<Rightarrow> completion \<times> auth_state" where
  "authenticate ev address s =
     (if no_address address then (Threw (JsError ''Wallet not connected''), s)
      else
        (case authenticate_try ev (the address) (s\<lparr>isLoading := True, error := None\<rparr>) of
           (Inl err, s1) \<Rightarrow>
             (Returned,
              s1\<lparr>error := Some (err_message err ''Authentication failed''), isLoading := False\<rparr>)
         | (Inr u, s1) \<Rightarrow> (Returned, s1\<lparr>isLoading := False\<rparr>)))"

subsection \<open>checkAuthStatus\<close>

definition checkAuthStatus :: "env \<Rightarrow> auth_state \<Rightarrow> completion \<times> auth_state" where
  "checkAuthStatus ev s =
     (case fetch GetStatus (status_fetch ev) s of
        (Inl err, s1) \<Rightarrow>
          (Returned,
           (console_error ''Failed to check auth status:'' s1)
             \<lparr>isAuthenticated := False, userData := None\<rparr>)
      | (Inr (k, body), s1) \<Rightarrow>
          if k then
            (case body of
               Inl err \<Rightarrow>
                 (Returned,
                  (console_error ''Failed to check auth status:'' s1)
                    \<lparr>isAuthenticated := False, userData := None\<rparr>)
             | Inr authenticated \<Rightarrow>
                 if authenticated then
                   (case fetchUserData ev (s1\<lparr>isAuthenticated := authenticated\<rparr>) of
                      (Returned, s2) \<Rightarrow> (Returned, s2)
                    | (Threw err, s2) \<Rightarrow>
                        (Returned,
                         (console_error ''Failed to check auth status:'' s2)
                           \<lparr>isAuthenticated := False, userData := None\<rparr>))
                 else (Returned, s1\<lparr>isAuthenticated := authenticated\<rparr>))
          else (Returned, s1\<lparr>isAuthenticated := False, userData := None\<rparr>))"

subsection \<open>The profile mutations\<close>

definition createOrUpdateProfile_try ::
  "env \<Rightarrow> PartialProfile \<Rightarrow> auth_state \<Rightarrow> (thrown + unit) \<times> auth_state"
where
  "createOrUpdateProfile_try ev profileData s =
     (case fetch (PostProfile profileData) (profile_post ev profileData) s of
        (Inl err, s1) \<Rightarrow> (Inl err, s1)
      | (Inr (k, body), s1) \<Rightarrow>
          if k then
            (case fetchUserData ev s1 of
               (Returned, s2) \<Rightarrow> (Inr (), s2)
             | (Threw err, s2) \<Rightarrow> (Inl err, s2))
          else (Inl (JsError ''Failed to update profile''), s1))"

definition createOrUpdateProfile ::
  "env \<Rightarrow> PartialProfile \<Rightarrow> auth_state \<Rightarrow> completion \<times> auth_state"
where
  "createOrUpdateProfile ev profileData s =
     (case createOrUpdateProfile_try ev profileData (s\<lparr>isLoading := True, error := None\<rparr>) of
        (Inl err, s1) \<Rightarrow>
          (Threw err,
           s1\<lparr>error := Some (err_message err ''Profile update failed''), isLoading := False\<rparr>)
      | (Inr u, s1) \<Rightarrow> (Returned, s1\<lparr>isLoading := False\<rparr>))"

definition deleteProfile_try :: "env \<Rightarrow> auth_state \<Rightarrow> (thrown + unit) \<times> auth_state" where
  "deleteProfile_try ev s =
     (case fetch DeleteProfile (profile_delete ev) s of
        (Inl err, s1) \<Rightarrow> (Inl err, s1)
      | (Inr (k, body), s1) \<Rightarrow>
          if k then
            (case fetchUserData ev s1 of
               (Returned, s2) \<Rightarrow> (Inr (), s2)
             | (Threw err, s2) \<Rightarrow> (Inl err, s2))
          else (Inl (JsError ''Failed to delete profile''), s1))"

definition deleteProfile :: "env \<Rightarrow> auth_state \<Rightarrow> completion \<times> auth_state" where
  "deleteProfile ev s =
     (case deleteProfile_try ev (s\<lparr>isLoading := True, error := None\<rparr>) of
        (Inl err, s1) \<Rightarrow>
          (Threw err,
           s1\<lparr>error := Some (err_message err ''Profile deletion failed''), isLoading := False\<rparr>)
      | (Inr u, s1) \<Rightarrow> (Returned, s1\<lparr>isLoading := False\<rparr>))"

subsection \<open>The effect on the wallet connection\<close>

text \<open>
  The \<open>useEffect\<close> with the dependencies \<open>[isConnected, address]\<close>: it runs at mount and
  after every change of either. In its first branch it starts \<open>checkAuthStatus\<close> without
  awaiting it and calls no setter itself; the model gives the state when that call has
  settled.
\<close>

definition walletEffect :: "env \<Rightarrow> bool \<Rightarrow> string option \<Rightarrow> auth_state \<Rightarrow> auth_state" where
  "walletEffect ev isConnected address s =
     (if isConnected \<and> \<not> no_address address then snd (checkAuthStatus ev s)
      else s\<lparr>isAuthenticated := False, userData := None\<rparr>)"

section \<open>The profile form (WalletAuth.tsx)\<close>

subsection \<open>Strings: \<open>trim\<close> and the two regular expressions\<close>

text \<open>
  A string is a list of 8-bit characters, so the model covers the code units below 256.
  Among them the white space of JavaScript (the class \<open>\s\<close>, and what \<open>trim\<close> removes)
  is tab, line feed, vertical tab, form feed, carriage return, space and no-break space.
\<close>

definition is_space :: "char \<Rightarrow> bool" where
  "is_space c = ((of_char c :: nat) \<in> {9, 10, 11, 12, 13, 32, 160})"

definition trim :: "string \<Rightarrow> string" where
  "trim s = rev (dropWhile is_space (rev (dropWhile is_space s)))"

text \<open>
  Regular expressions as far as the two patterns of the form need them: a character
  class, sequence, alternative and \<open>+\<close>. Both patterns are anchored with \<open>^\<close> and \<open>$\<close>
  and have no \<open>m\<close> flag, so \<open>test\<close> asks whether the whole string matches; that is
  decided by taking derivatives character by character.
\<close>

datatype rx = Never | Empty | Cls "char \<Rightarrow> bool" | Then rx rx | Or rx rx | Many1 rx

fun nullable :: "rx \<Rightarrow> bool" where
  "nullable Never = False"
| "nullable Empty = True"
| "nullable (Cls p) = False"
| "nullable (Then a b) = (nullable a \<and> nullable b)"
| "nullable (Or a b) = (nullable a \<or> nullable b)"
| "nullable (Many1 a) = nullable a"

fun deriv :: "char \<Rightarrow> rx \<Rightarrow> rx" where
  "deriv c Never = Never"
| "deriv c Empty = Never"
| "deriv c (Cls p) = (if p c then Empty else Never)"
| "deriv c (Then a b) =
     (if nullable a then Or (Then (deriv c a) b) (deriv c b) else Then (deriv c a) b)"
| "deriv c (Or a b) = Or (deriv c a) (deriv c b)"
| "deriv c (Many1 a) = Then (deriv c a) (Or Empty (Many1 a))"

fun rx_test :: "rx \<Rightarrow> string \<Rightarrow> bool" where
  "rx_test r [] = nullable r"
| "rx_test r (c # cs) = rx_test (deriv c r) cs"

text \<open>
  With the flag \<open>i\<close> a letter of the pattern matches both of its cases; no character
  from 128 on is folded onto an ASCII letter.
\<close>

definition lower :: "char \<Rightarrow> char" where
  "lower c = (let n = (of_char c :: nat) in if 65 \<le> n \<and> n \<le> 90 then char_of (n + 32) else c)"

definition lit :: "char \<Rightarrow> rx" where
  "lit x = Cls (\<lambda>c. c = x)"

definition lit_i :: "char \<Rightarrow> rx" where
  "lit_i x = Cls (\<lambda>c. lower c = lower x)"

fun word_i :: "string \<Rightarrow> rx" where
  "word_i [] = Empty"
| "word_i (x # xs) = Then (lit_i x) (word_i xs)"

text \<open>\<open>[^\s@]\<close>, and the dot, which matches everything but a line terminator.\<close>

definition not_space_at :: "char \<Rightarrow> bool" where
  "not_space_at c = (\<not> is_space c \<and> c \<noteq> CHR ''@'')"

definition any_char :: "char \<Rightarrow> bool" where
  "any_char c = ((of_char c :: nat) \<notin> {10, 13})"

text \<open>\<^verbatim>\<open>/^[^\s@]+@[^\s@]+\.[^\s@]+$/\<close>\<close>

definition email_rx :: rx where
  "email_rx =
     Then (Many1 (Cls not_space_at))
       (Then (lit CHR ''@'')
          (Then (Many1 (Cls not_space_at))
             (Then (lit CHR ''.'') (Many1 (Cls not_space_at)))))"

text \<open>\<^verbatim>\<open>/^https?:\/\/.+\.(jpg|jpeg|png|gif|webp|svg)$/i\<close>\<close>

definition avatar_rx :: rx where
  "avatar_rx =
     Then (word_i ''http'')
       (Then (Or (lit_i CHR ''s'') Empty)
          (Then (word_i ''://'')
             (Then (Many1 (Cls any_char))
                (Then (lit_i CHR ''.'')
                   (Or (word_i ''jpg'')
                      (Or (word_i ''jpeg'')
                         (Or (word_i ''png'')
                            (Or (word_i ''gif'')
                               (Or (word_i ''webp'') (word_i ''svg''))))))))))"

subsection \<open>handleFormSubmit\<close>

record ProfileFormData =
  form_name :: string
  form_email :: string
  form_avatar :: string

text \<open>
  The state of the component: its two \<open>useState\<close> cells and the messages shown with
  \<open>alert\<close>, oldest first.
\<close>

record ui_state =
  showProfileForm :: bool
  profileForm :: ProfileFormData
  alerts :: "string list"

definition alert :: "string \<Rightarrow> ui_state \<Rightarrow> ui_state" where
  "alert msg ui = ui\<lparr>alerts := alerts ui @ [msg]\<rparr>"

definition empty_form :: ProfileFormData where
  "empty_form = \<lparr>form_name = [], form_email = [], form_avatar = []\<rparr>"

text \<open>A string is truthy when it is not empty; an empty field is left out of the object.\<close>

definition non_empty :: "string \<Rightarrow> string option" where
  "non_empty s = (if s \<noteq> [] then Some s else None)"

definition handleFormSubmit :: "env \<Rightarrow> ui_state \<times> auth_state \<Rightarrow> ui_state \<times> auth_state" where
  "handleFormSubmit ev w =
     (let ui = fst w; s = snd w;
          n = trim (form_name (profileForm ui));
          e = trim (form_email (profileForm ui));
          a = trim (form_avatar (profileForm ui))
      in
        if n = [] \<and> e = [] \<and> a = [] then
          (alert ''Please fill in at least one field'' ui, s)
        else if e \<noteq> [] \<and> \<not> rx_test email_rx e then
          (alert ''Please enter a valid email address'' ui, s)
        else if a \<noteq> [] \<and> \<not> rx_test avatar_rx a then
          (alert ''Please enter a valid image URL (jpg, jpeg, png, gif, webp, svg)'' ui, s)
        else
          (case createOrUpdateProfile ev
                  \<lparr>p_name = non_empty n, p_email = non_empty e, p_avatar = non_empty a,
                   p_createdAt = None, p_updatedAt = None\<rparr> s of
             (Returned, s1) \<Rightarrow> (ui\<lparr>showProfileForm := False, profileForm := empty_form\<rparr>, s1)
           | (Threw err, s1) \<Rightarrow> (ui, console_error ''Profile operation failed:'' s1)))"

section \<open>Ways a request fails, and concrete scenarios\<close>

text \<open>
  A request whose response is only tested for \<open>ok\<close> fails when \<open>fetch\<close> rejects or the
  status is not 2xx; a request whose body is read fails also when the body cannot be read.
\<close>

fun not_ok :: "'a fetch_result \<Rightarrow> bool" where
  "not_ok (Rejected e) = True"
| "not_ok (Response k body) = (\<not> k)"

fun read_failed :: "'a fetch_result \<Rightarrow> bool" where
  "read_failed (Rejected e) = True"
| "read_failed (Response k body) = (\<not> k \<or> isl body)"

text \<open>
  Every step of the handshake of \<open>authenticate\<close> went through: the nonce was obtained,
  the message built and signed, and the server answered the verification with a 2xx
  status and \<open>success: true\<close>.
\<close>

definition verified :: "env \<Rightarrow> string \<Rightarrow> bool" where
  "verified ev addr =
     (case nonce_fetch ev of
        Rejected e \<Rightarrow> False
      | Response k body \<Rightarrow>
          k \<and>
          (case body of
             Inl e \<Rightarrow> False
           | Inr nonce \<Rightarrow>
               (case createSiweMessage ev addr nonce of
                  Inl e \<Rightarrow> False
                | Inr message \<Rightarrow>
                    (case signMessageAsync ev message of
                       Inl e \<Rightarrow> False
                     | Inr signature \<Rightarrow>
                         verify_fetch ev message signature = Response True (Inr True)))))"

definition alice_record :: UserData where
  "alice_record =
     \<lparr>user = \<lparr>user_id = ''1'', walletAddress = ''0xA11CE'',
               user_createdAt = ''2024-01-01'', user_updatedAt = ''2024-01-01''\<rparr>,
      profile = None\<rparr>"

definition alice :: json where
  "alice = UserData_json alice_record"

definition signed_in :: auth_state where
  "signed_in = initial_state\<lparr>isAuthenticated := True, userData := Some alice\<rparr>"

text \<open>A server that accepts everything, with the nonce and signature of the spec's scenario.\<close>

definition server_up :: env where
  "server_up =
     \<lparr>nonce_fetch = Response True (Inr ''abc123''),
      createSiweMessage = (\<lambda>a n. Inr (a @ '' nonce '' @ n)),
      signMessageAsync = (\<lambda>m. Inr ''0xdead''),
      verify_fetch = (\<lambda>m sg. Response True (Inr True)),
      logout_fetch = Response True (Inr ()),
      status_fetch = Response True (Inr True),
      profile_get = Response True (Inr (Some alice)),
      profile_post = (\<lambda>d. Response True (Inr ())),
      profile_delete = Response True (Inr ())\<rparr>"

text \<open>A server that answers every request with status 500.\<close>

definition server_500 :: env where
  "server_500 =
     \<lparr>nonce_fetch = Response False (Inr []),
      createSiweMessage = (\<lambda>a n. Inr (a @ '' nonce '' @ n)),
      signMessageAsync = (\<lambda>m. Inr ''0xdead''),
      verify_fetch = (\<lambda>m sg. Response False (Inl (JsError ''Unexpected token''))),
      logout_fetch = Response False (Inr ()),
      status_fetch = Response False (Inl (JsError ''Unexpected token'')),
      profile_get = Response False (Inl (JsError ''Unexpected token'')),
      profile_post = (\<lambda>d. Response False (Inr ())),
      profile_delete = Response False (Inr ())\<rparr>"

text \<open>No network: every \<open>fetch\<close> rejects.\<close>

definition network_down :: env where
  "network_down =
     \<lparr>nonce_fetch = Rejected (JsError ''Failed to fetch''),
      createSiweMessage = (\<lambda>a n. Inr (a @ '' nonce '' @ n)),
      signMessageAsync = (\<lambda>m. Inr ''0xdead''),
      verify_fetch = (\<lambda>m sg. Rejected (JsError ''Failed to fetch'')),
      logout_fetch = Rejected (JsError ''Failed to fetch''),
      status_fetch = Rejected (JsError ''Failed to fetch''),
      profile_get = Rejected (JsError ''Failed to fetch''),
      profile_post = (\<lambda>d. Rejected (JsError ''Failed to fetch'')),
      profile_delete = Rejected (JsError ''Failed to fetch'')\<rparr>"

definition no_fields :: PartialProfile where
  "no_fields =
     \<lparr>p_name = None, p_email = None, p_avatar = None, p_createdAt = None, p_updatedAt = None\<rparr>"

text \<open>Variations: one endpoint behaves differently.\<close>

definition verify_refused :: env where
  "verify_refused = server_up\<lparr>verify_fetch := (\<lambda>m sg. Response True (Inr False))\<rparr>"

definition profile_unreachable :: env where
  "profile_unreachable = server_up\<lparr>profile_get := Rejected (JsError ''Failed to fetch'')\<rparr>"

text \<open>A 200 from \<open>GET /a/profile\<close> whose body is JSON but no \<open>UserData\<close>.\<close>

definition profile_empty_object :: env where
  "profile_empty_object = server_up\<lparr>profile_get := Response True (Inr (Some (JObj [])))\<rparr>"

definition profile_null :: env where
  "profile_null = server_up\<lparr>profile_get := Response True (Inr None)\<rparr>"

definition session_expired :: env where
  "session_expired = server_up\<lparr>status_fetch := Response True (Inr False)\<rparr>"

text \<open>Two forms as the user may submit them: only blanks, and a name with a bad email.\<close>

definition blank_form :: ui_state where
  "blank_form =
     \<lparr>showProfileForm = True,
      profileForm = \<lparr>form_name = ''  '', form_email = [], form_avatar = '' ''\<rparr>,
      alerts = []\<rparr>"

definition bad_email_form :: ui_state where
  "bad_email_form =
     \<lparr>showProfileForm = True,
      profileForm = \<lparr>form_name = ''Alice'', form_email = ''not-an-email'', form_avatar = []\<rparr>,
      alerts = []\<rparr>"

definition bad_email :: PartialProfile where
  "bad_email = no_fields\<lparr>p_email := Some ''not-an-email''\<rparr>"

section \<open>Properties of the controller\<close>

subsection \<open>fetchUserData\<close>

lemma fetchUserData_returns: "fst (fetchUserData ev s) = Returned"
  by (simp add: fetchUserData_def fetch_def split: fetch_result.split sum.split)

lemma fetchUserData_frame:
  "isAuthenticated (snd (fetchUserData ev s)) = isAuthenticated s"
  "isLoading (snd (fetchUserData ev s)) = isLoading s"
  "error (snd (fetchUserData ev s)) = error s"
  "requests (snd (fetchUserData ev s)) = requests s @ [GetProfile]"
  by (simp_all add: fetchUserData_def fetch_def console_error_def
        split: fetch_result.split sum.split)

lemma fetchUserData_failed:
  "read_failed (profile_get ev) \<Longrightarrow> userData (snd (fetchUserData ev s)) = None"
  by (cases "profile_get ev")
     (auto simp: fetchUserData_def fetch_def console_error_def split: sum.split)

lemma after_fetchUserData:
  "(case fetchUserData ev s of (Returned, s') \<Rightarrow> f s' | (Threw err, s') \<Rightarrow> g err s') =
     f (snd (fetchUserData ev s))"
  using fetchUserData_returns [of ev s] by (cases "fetchUserData ev s") auto

lemma fetchUserData_stored:
  "profile_get ev = Response True (Inr data) \<Longrightarrow>
     userData (snd (fetchUserData ev s)) = data \<and> console (snd (fetchUserData ev s)) = console s"
  by (simp add: fetchUserData_def fetch_def)

text \<open>
  Claim C8, as amended. Whenever \<open>fetchUserData\<close> fails, that is, the endpoint is
  unreachable, the status is not 2xx, or the body is not JSON, it sets \<open>userData\<close> to
  null and writes one line with \<open>console.error\<close>. A 2xx body that is JSON is no failure
  for the code, whatever its shape: it is stored in \<open>userData\<close> as it is and nothing is
  logged. In every case \<open>fetchUserData\<close> issues its one request, returns normally and
  leaves the \<open>error\<close> field as it was.
\<close>

theorem fetchUserData_failure_or_store:
  "fst (fetchUserData ev s) = Returned \<and>
   error (snd (fetchUserData ev s)) = error s \<and>
   requests (snd (fetchUserData ev s)) = requests s @ [GetProfile] \<and>
   (read_failed (profile_get ev) \<longrightarrow>
      userData (snd (fetchUserData ev s)) = None \<and>
      (\<exists>line. console (snd (fetchUserData ev s)) = console s @ [line])) \<and>
   (profile_get ev = Response True (Inr data) \<longrightarrow>
      userData (snd (fetchUserData ev s)) = data \<and>
      console (snd (fetchUserData ev s)) = console s)"
  by (cases "profile_get ev")
     (auto simp: fetchUserData_def fetch_def console_error_def split: sum.split)

theorem fetchUserData_failure_or_store_witness:
  "read_failed (profile_get server_500) \<and>
   profile_get server_up = Response True (Inr (Some alice)) \<and>
   fst (fetchUserData server_500 signed_in) = Returned \<and>
   error (snd (fetchUserData server_500 signed_in)) = None \<and>
   userData (snd (fetchUserData server_500 signed_in)) = None \<and>
   console (snd (fetchUserData server_500 signed_in)) = [''Failed to fetch user data''] \<and>
   userData (snd (fetchUserData server_up initial_state)) = Some alice \<and>
   console (snd (fetchUserData server_up initial_state)) = [] \<and>
   requests (snd (fetchUserData server_up initial_state)) = [GetProfile]"
proof -
  have failed: "read_failed (profile_get server_500)"
    by (simp add: server_500_def)
  have answer: "profile_get server_up = Response True (Inr (Some alice))"
    by (simp add: server_up_def)
  have before:
    "error signed_in = None" "console initial_state = []" "requests initial_state = []"
    by (simp_all add: signed_in_def initial_state_def)
  have line:
    "console (snd (fetchUserData server_500 signed_in)) = [''Failed to fetch user data'']"
    by (simp add: server_500_def signed_in_def initial_state_def fetchUserData_def fetch_def
          console_error_def)
  note down = fetchUserData_failure_or_store [where ev = server_500 and s = signed_in]
  note up = fetchUserData_failure_or_store
    [where ev = server_up and s = initial_state and data = "Some alice"]
  from down failed have
    "fst (fetchUserData server_500 signed_in) = Returned \<and>
     error (snd (fetchUserData server_500 signed_in)) = error signed_in \<and>
     userData (snd (fetchUserData server_500 signed_in)) = None"
    by blast
  moreover from up answer have
    "userData (snd (fetchUserData server_up initial_state)) = Some alice \<and>
     console (snd (fetchUserData server_up initial_state)) = console initial_state \<and>
     requests (snd (fetchUserData server_up initial_state)) = requests initial_state @ [GetProfile]"
    by blast
  ultimately show ?thesis
    using failed answer before line by simp
qed

text \<open>
  The claim as written fails for a malformed body that is JSON. A 200 with the body
  \<open>{}\<close> leaves \<open>userData\<close> holding that object, not null, and a 200 with the body
  \<open>null\<close> sets \<open>userData\<close> to null without a line on the console.
\<close>

theorem fetchUserData_unshaped_body_counterexample:
  "userData (snd (fetchUserData profile_empty_object initial_state)) = Some (JObj []) \<and>
   console (snd (fetchUserData profile_empty_object initial_state)) = [] \<and>
   userData (snd (fetchUserData profile_null signed_in)) = None \<and>
   console (snd (fetchUserData profile_null signed_in)) = []"
  by (simp add: fetchUserData_def fetch_def profile_empty_object_def profile_null_def
        server_up_def signed_in_def initial_state_def)

subsection \<open>logout\<close>

text \<open>
  Claim C1, as amended. When the logout request resolves, with whatever status, \<open>logout\<close>
  sets \<open>isAuthenticated\<close> to false and \<open>userData\<close> to null. When \<open>fetch\<close> rejects, the
  \<open>catch\<close> block records the message in \<open>error\<close> and \<open>isAuthenticated\<close> and \<open>userData\<close>
  keep their values. In both cases \<open>logout\<close> returns normally with \<open>isLoading\<close> false.
\<close>

theorem logout_clears_when_resolved:
  "fst (logout ev s) = Returned \<and>
   \<not> isLoading (snd (logout ev s)) \<and>
   (logout_fetch ev = Response k body \<longrightarrow>
      \<not> isAuthenticated (snd (logout ev s)) \<and>
      userData (snd (logout ev s)) = None \<and>
      error (snd (logout ev s)) = None) \<and>
   (logout_fetch ev = Rejected e \<longrightarrow>
      isAuthenticated (snd (logout ev s)) = isAuthenticated s \<and>
      userData (snd (logout ev s)) = userData s \<and>
      error (snd (logout ev s)) = Some (err_message e ''Logout failed''))"
  by (cases "logout_fetch ev") (simp_all add: logout_def logout_try_def fetch_def)

theorem logout_clears_when_resolved_witness:
  "logout_fetch server_500 = Response False (Inr ()) \<and>
   logout_fetch network_down = Rejected (JsError ''Failed to fetch'') \<and>
   fst (logout server_500 signed_in) = Returned \<and>
   isAuthenticated (snd (logout server_500 signed_in)) = False \<and>
   userData (snd (logout server_500 signed_in)) = None \<and>
   isLoading (snd (logout network_down signed_in)) = False \<and>
   error (snd (logout network_down signed_in)) = Some ''Failed to fetch''"
proof -
  have resolved: "logout_fetch server_500 = Response False (Inr ())"
    by (simp add: server_500_def)
  have rejected: "logout_fetch network_down = Rejected (JsError ''Failed to fetch'')"
    by (simp add: network_down_def)
  show ?thesis
    using resolved rejected
      logout_clears_when_resolved
        [where ev = server_500 and s = signed_in and k = False and body = "Inr ()"]
      logout_clears_when_resolved
        [where ev = network_down and s = signed_in and e = "JsError ''Failed to fetch''"]
    by simp
qed

text \<open>
  The claim as written fails when the network is down: a signed-in session is still
  signed in, with its user data, after \<open>logout\<close> has returned.
\<close>

theorem logout_rejected_counterexample:
  "fst (logout network_down signed_in) = Returned \<and>
   isAuthenticated (snd (logout network_down signed_in)) = True \<and>
   userData (snd (logout network_down signed_in)) = Some alice"
  by (simp add: logout_def logout_try_def fetch_def network_down_def signed_in_def
        initial_state_def)

subsection \<open>authenticate without a wallet\<close>

text \<open>
  Claim C6. Called while no wallet address is available, \<open>authenticate\<close> throws the
  error \<open>Wallet not connected\<close> and has issued no request: the list of requests is the
  one from before the call.
\<close>

theorem authenticate_requires_wallet:
  "no_address address \<Longrightarrow>
     fst (authenticate ev address s) = Threw (JsError ''Wallet not connected'') \<and>
     requests (snd (authenticate ev address s)) = requests s"
  by (simp add: authenticate_def)

theorem authenticate_requires_wallet_witness:
  "no_address None \<and>
   fst (authenticate server_up None initial_state) = Threw (JsError ''Wallet not connected'') \<and>
   requests (snd (authenticate server_up None initial_state)) = []"
  using authenticate_requires_wallet [of None server_up initial_state]
  by (simp add: initial_state_def)

text \<open>
  Claim C10. In that case the error reaches the caller and the whole state is the one
  from before the call: \<open>isLoading\<close> is not set, \<open>error\<close> is not written, and
  \<open>isAuthenticated\<close> and \<open>userData\<close> keep their values.
\<close>

theorem authenticate_without_wallet_frame:
  "no_address address \<Longrightarrow>
     authenticate ev address s = (Threw (JsError ''Wallet not connected''), s) \<and>
     isLoading (snd (authenticate ev address s)) = isLoading s \<and>
     error (snd (authenticate ev address s)) = error s \<and>
     isAuthenticated (snd (authenticate ev address s)) = isAuthenticated s \<and>
     userData (snd (authenticate ev address s)) = userData s"
  by (simp add: authenticate_def)

theorem authenticate_without_wallet_frame_witness:
  "no_address (Some []) \<and>
   authenticate network_down (Some []) signed_in =
     (Threw (JsError ''Wallet not connected''), signed_in) \<and>
   isAuthenticated (snd (authenticate network_down (Some []) signed_in)) = True \<and>
   userData (snd (authenticate network_down (Some []) signed_in)) = Some alice"
  using authenticate_without_wallet_frame [of "Some []" network_down signed_in]
  by (simp add: signed_in_def initial_state_def)

subsection \<open>authenticate with a wallet\<close>

lemma authenticate_try_verified:
  assumes "nonce_fetch ev = Response True (Inr nonce)"
    and "createSiweMessage ev addr nonce = Inr message"
    and "signMessageAsync ev message = Inr signature"
    and "verify_fetch ev message signature = Response True (Inr True)"
  shows "authenticate_try ev addr s =
           (Inr (),
            snd (fetchUserData ev
                   (s\<lparr>requests := requests s @ [GetNonce, PostVerify message signature],
                      isAuthenticated := True\<rparr>)))"
  using assms
  by (simp add: authenticate_try_def getNonce_def fetch_def after_fetchUserData)

lemma authenticate_try_not_verified:
  assumes "\<not> verified ev addr"
  shows "\<exists>err s1. authenticate_try ev addr s = (Inl err, s1) \<and>
                  isAuthenticated s1 = isAuthenticated s \<and> userData s1 = userData s"
  using assms
  by (auto simp: verified_def authenticate_try_def getNonce_def fetch_def
        split: fetch_result.splits sum.splits bool.splits)

text \<open>The failures the handshake can meet, each of which leaves it not verified.\<close>

lemma failure_modes_not_verified:
  "read_failed (nonce_fetch ev) \<Longrightarrow> \<not> verified ev addr"
  "nonce_fetch ev = Response True (Inr nonce) \<Longrightarrow> createSiweMessage ev addr nonce = Inr message \<Longrightarrow>
     signMessageAsync ev message = Inl e \<Longrightarrow> \<not> verified ev addr"
  "nonce_fetch ev = Response True (Inr nonce) \<Longrightarrow> createSiweMessage ev addr nonce = Inr message \<Longrightarrow>
     signMessageAsync ev message = Inr signature \<Longrightarrow>
     not_ok (verify_fetch ev message signature) \<Longrightarrow> \<not> verified ev addr"
  "nonce_fetch ev = Response True (Inr nonce) \<Longrightarrow> createSiweMessage ev addr nonce = Inr message \<Longrightarrow>
     signMessageAsync ev message = Inr signature \<Longrightarrow>
     verify_fetch ev message signature = Response True (Inr False) \<Longrightarrow> \<not> verified ev addr"
  by (auto simp: verified_def split: fetch_result.splits sum.splits)

text \<open>
  Claim C3. When every step of the handshake goes through and the server answers the
  verification with a 2xx status and \<open>success: true\<close>, \<open>authenticate\<close> sets
  \<open>isAuthenticated\<close> to true and then runs \<open>fetchUserData\<close> once: the state it returns is
  the one \<open>fetchUserData\<close> gives on the authenticated state, with \<open>isLoading\<close> cleared,
  and the requests of the call are the nonce, the verification and one \<open>GET /a/profile\<close>.
  When that fetch fails, \<open>isAuthenticated\<close> is true all the same and \<open>userData\<close> is null.
\<close>

theorem authenticate_success_then_fetch:
  assumes "addr \<noteq> []"
    and "nonce_fetch ev = Response True (Inr nonce)"
    and "createSiweMessage ev addr nonce = Inr message"
    and "signMessageAsync ev message = Inr signature"
    and "verify_fetch ev message signature = Response True (Inr True)"
  shows "authenticate ev (Some addr) s =
           (Returned,
            (snd (fetchUserData ev
                    (s\<lparr>isLoading := True, error := None,
                       requests := requests s @ [GetNonce, PostVerify message signature],
                       isAuthenticated := True\<rparr>)))\<lparr>isLoading := False\<rparr>) \<and>
         isAuthenticated (snd (authenticate ev (Some addr) s)) \<and>
         requests (snd (authenticate ev (Some addr) s)) =
           requests s @ [GetNonce, PostVerify message signature, GetProfile] \<and>
         (read_failed (profile_get ev) \<longrightarrow>
            isAuthenticated (snd (authenticate ev (Some addr) s)) \<and>
            userData (snd (authenticate ev (Some addr) s)) = None)"
  using assms
  by (simp add: authenticate_def authenticate_try_verified [OF assms(2-5)]
        fetchUserData_frame fetchUserData_failed)

theorem authenticate_success_then_fetch_witness:
  "read_failed (profile_get profile_unreachable) \<and>
   fst (authenticate profile_unreachable (Some ''0xA11CE'') initial_state) = Returned \<and>
   isAuthenticated (snd (authenticate profile_unreachable (Some ''0xA11CE'') initial_state)) \<and>
   userData (snd (authenticate profile_unreachable (Some ''0xA11CE'') initial_state)) = None \<and>
   requests (snd (authenticate profile_unreachable (Some ''0xA11CE'') initial_state)) =
     [GetNonce, PostVerify ''0xA11CE nonce abc123'' ''0xdead'', GetProfile]"
proof -
  have failed: "read_failed (profile_get profile_unreachable)"
    by (simp add: profile_unreachable_def server_up_def)
  have nonce: "nonce_fetch profile_unreachable = Response True (Inr ''abc123'')"
    and message:
      "createSiweMessage profile_unreachable ''0xA11CE'' ''abc123'' = Inr ''0xA11CE nonce abc123''"
    and signature: "signMessageAsync profile_unreachable ''0xA11CE nonce abc123'' = Inr ''0xdead''"
    and verify:
      "verify_fetch profile_unreachable ''0xA11CE nonce abc123'' ''0xdead'' =
         Response True (Inr True)"
    by (simp_all add: profile_unreachable_def server_up_def)
  have before: "requests initial_state = []"
    by (simp add: initial_state_def)
  note run =
    authenticate_success_then_fetch
      [where s = initial_state, OF _ nonce message signature verify]
  from run have "fst (authenticate profile_unreachable (Some ''0xA11CE'') initial_state) = Returned"
    by simp
  moreover from run have
    "isAuthenticated (snd (authenticate profile_unreachable (Some ''0xA11CE'') initial_state))"
    by blast
  moreover from run failed have
    "userData (snd (authenticate profile_unreachable (Some ''0xA11CE'') initial_state)) = None"
    by blast
  moreover from run have
    "requests (snd (authenticate profile_unreachable (Some ''0xA11CE'') initial_state)) =
       requests initial_state @
         [GetNonce, PostVerify ''0xA11CE nonce abc123'' ''0xdead'', GetProfile]"
    by blast
  then have
    "requests (snd (authenticate profile_unreachable (Some ''0xA11CE'') initial_state)) =
       [GetNonce, PostVerify ''0xA11CE nonce abc123'' ''0xdead'', GetProfile]"
    by (simp add: before)
  ultimately show ?thesis
    using failed by blast
qed

text \<open>
  Claim C4. With a wallet address present, whenever the handshake is not verified (the
  nonce request fails, the message cannot be built or signed, the verification request
  fails, its status is not 2xx, its body cannot be read or says \<open>success: false\<close>),
  \<open>authenticate\<close> returns with \<open>isAuthenticated\<close> as it was before the call, hence still
  false in a session that was not authenticated, with \<open>error\<close> set to a message and with
  \<open>isLoading\<close> false.
\<close>

theorem authenticate_failure_captured:
  assumes "addr \<noteq> []" and "\<not> verified ev addr"
  shows "fst (authenticate ev (Some addr) s) = Returned \<and>
         isAuthenticated (snd (authenticate ev (Some addr) s)) = isAuthenticated s \<and>
         (\<not> isAuthenticated s \<longrightarrow> \<not> isAuthenticated (snd (authenticate ev (Some addr) s))) \<and>
         error (snd (authenticate ev (Some addr) s)) \<noteq> None \<and>
         \<not> isLoading (snd (authenticate ev (Some addr) s))"
proof -
  obtain err s1 where
    "authenticate_try ev addr (s\<lparr>isLoading := True, error := None\<rparr>) = (Inl err, s1)"
    and "isAuthenticated s1 = isAuthenticated (s\<lparr>isLoading := True, error := None\<rparr>)"
    using authenticate_try_not_verified [OF assms(2)] by blast
  with assms(1) show ?thesis
    by (simp add: authenticate_def)
qed

theorem authenticate_failure_captured_witness:
  "\<not> verified verify_refused ''0xA11CE'' \<and>
   \<not> isAuthenticated initial_state \<and>
   fst (authenticate verify_refused (Some ''0xA11CE'') initial_state) = Returned \<and>
   \<not> isAuthenticated (snd (authenticate verify_refused (Some ''0xA11CE'') initial_state)) \<and>
   error (snd (authenticate verify_refused (Some ''0xA11CE'') initial_state)) =
     Some ''Authentication verification failed'' \<and>
   \<not> isLoading (snd (authenticate verify_refused (Some ''0xA11CE'') initial_state))"
proof -
  have refused: "\<not> verified verify_refused ''0xA11CE''"
    by (simp add: verified_def verify_refused_def server_up_def)
  have message:
    "error (snd (authenticate verify_refused (Some ''0xA11CE'') initial_state)) =
       Some ''Authentication verification failed''"
    by (simp add: authenticate_def authenticate_try_def getNonce_def fetch_def
          verify_refused_def server_up_def)
  show ?thesis
    using refused message
      authenticate_failure_captured [of "''0xA11CE''" verify_refused initial_state]
    by (simp add: initial_state_def)
qed

subsection \<open>checkAuthStatus\<close>

lemma checkAuthStatus_returns: "fst (checkAuthStatus ev s) = Returned"
  by (simp add: checkAuthStatus_def fetch_def after_fetchUserData
        split: fetch_result.split sum.split)

lemma checkAuthStatus_answer:
  "status_fetch ev = Response True (Inr authenticated) \<Longrightarrow>
     snd (checkAuthStatus ev s) =
       (if authenticated then
          snd (fetchUserData ev
                 (s\<lparr>requests := requests s @ [GetStatus], isAuthenticated := True\<rparr>))
        else s\<lparr>requests := requests s @ [GetStatus], isAuthenticated := False\<rparr>)"
  by (simp add: checkAuthStatus_def fetch_def after_fetchUserData)

lemma checkAuthStatus_closed:
  "read_failed (status_fetch ev) \<Longrightarrow>
     \<not> isAuthenticated (snd (checkAuthStatus ev s)) \<and> userData (snd (checkAuthStatus ev s)) = None"
  by (cases "status_fetch ev")
     (auto simp: checkAuthStatus_def fetch_def console_error_def split: sum.split)

text \<open>
  Claim C5. \<open>checkAuthStatus\<close> never raises. When the status request succeeds, it sets
  \<open>isAuthenticated\<close> to the truth value the server returned, and when that value is true
  it goes on with \<open>fetchUserData\<close> (one \<open>GET /a/profile\<close> after the status request);
  when it is false no further request is made. When the request is rejected, the status
  is not 2xx or the body cannot be read, \<open>isAuthenticated\<close> is set to false.
\<close>

theorem checkAuthStatus_fail_closed:
  "fst (checkAuthStatus ev s) = Returned \<and>
   (status_fetch ev = Response True (Inr authenticated) \<longrightarrow>
      isAuthenticated (snd (checkAuthStatus ev s)) = authenticated \<and>
      requests (snd (checkAuthStatus ev s)) =
        requests s @ (if authenticated then [GetStatus, GetProfile] else [GetStatus]) \<and>
      (authenticated \<longrightarrow>
         snd (checkAuthStatus ev s) =
           snd (fetchUserData ev
                  (s\<lparr>requests := requests s @ [GetStatus], isAuthenticated := True\<rparr>)))) \<and>
   (read_failed (status_fetch ev) \<longrightarrow> \<not> isAuthenticated (snd (checkAuthStatus ev s)))"
  by (simp add: checkAuthStatus_returns checkAuthStatus_answer checkAuthStatus_closed
        fetchUserData_frame)

theorem checkAuthStatus_fail_closed_witness:
  "status_fetch server_up = Response True (Inr True) \<and>
   read_failed (status_fetch network_down) \<and>
   fst (checkAuthStatus server_up initial_state) = Returned \<and>
   isAuthenticated (snd (checkAuthStatus server_up initial_state)) = True \<and>
   requests (snd (checkAuthStatus server_up initial_state)) = [GetStatus, GetProfile] \<and>
   fst (checkAuthStatus network_down signed_in) = Returned \<and>
   isAuthenticated (snd (checkAuthStatus network_down signed_in)) = False"
proof -
  have answer: "status_fetch server_up = Response True (Inr True)"
    by (simp add: server_up_def)
  have down: "read_failed (status_fetch network_down)"
    by (simp add: network_down_def)
  have before: "requests initial_state = []"
    by (simp add: initial_state_def)
  note up = checkAuthStatus_fail_closed
    [where ev = server_up and s = initial_state and authenticated = True]
  note closed = checkAuthStatus_fail_closed [where ev = network_down and s = signed_in]
  from up answer have
    "requests (snd (checkAuthStatus server_up initial_state)) =
       requests initial_state @ (if True then [GetStatus, GetProfile] else [GetStatus])"
    by blast
  then have "requests (snd (checkAuthStatus server_up initial_state)) = [GetStatus, GetProfile]"
    by (simp add: before)
  moreover from up answer have
    "isAuthenticated (snd (checkAuthStatus server_up initial_state)) = True"
    by blast
  moreover from up have "fst (checkAuthStatus server_up initial_state) = Returned"
    by blast
  moreover from closed down have
    "isAuthenticated (snd (checkAuthStatus network_down signed_in)) = False"
    by blast
  moreover from closed have "fst (checkAuthStatus network_down signed_in) = Returned"
    by blast
  ultimately show ?thesis
    using answer down by blast
qed

subsection \<open>The effect on the wallet connection\<close>

text \<open>
  Claim C7, as amended. When the wallet is disconnected (not connected, or no address),
  whatever the state was, \<open>isAuthenticated\<close> becomes false and \<open>userData\<close> null, and no
  request is made. When the address changes and a wallet stays connected, the state is
  not reset: the effect runs \<open>checkAuthStatus\<close> on the state as it is, and
  \<open>isAuthenticated\<close> ends true exactly when the status request is answered with a 2xx
  status and \<open>authenticated: true\<close>.
\<close>

theorem walletEffect_disconnect_resets:
  "(\<not> isConnected \<or> no_address address \<longrightarrow>
      \<not> isAuthenticated (walletEffect ev isConnected address s) \<and>
      userData (walletEffect ev isConnected address s) = None \<and>
      requests (walletEffect ev isConnected address s) = requests s) \<and>
   (isConnected \<and> \<not> no_address address \<longrightarrow>
      walletEffect ev isConnected address s = snd (checkAuthStatus ev s) \<and>
      isAuthenticated (walletEffect ev isConnected address s) =
        (status_fetch ev = Response True (Inr True)))"
proof -
  have "isAuthenticated (snd (checkAuthStatus ev s)) = (status_fetch ev = Response True (Inr True))"
  proof (cases "read_failed (status_fetch ev)")
    case True
    then show ?thesis
      using checkAuthStatus_closed [of ev s] by auto
  next
    case False
    then obtain body where "status_fetch ev = Response True body" and "\<not> isl body"
      by (cases "status_fetch ev") auto
    then obtain authenticated where "status_fetch ev = Response True (Inr authenticated)"
      by (cases body) auto
    then show ?thesis
      by (simp add: checkAuthStatus_answer fetchUserData_frame)
  qed
  then show ?thesis
    by (auto simp: walletEffect_def)
qed

theorem walletEffect_disconnect_resets_witness:
  "no_address None \<and>
   isAuthenticated signed_in \<and>
   isAuthenticated (walletEffect server_up False None signed_in) = False \<and>
   userData (walletEffect server_up False None signed_in) = None \<and>
   requests (walletEffect server_up False None signed_in) = [] \<and>
   no_address (Some ''0xB0B'') = False \<and>
   isAuthenticated (walletEffect server_up True (Some ''0xB0B'') signed_in) = True"
proof -
  have answer: "status_fetch server_up = Response True (Inr True)"
    by (simp add: server_up_def)
  have before: "requests signed_in = []" "isAuthenticated signed_in"
    by (simp_all add: signed_in_def initial_state_def)
  note reset = walletEffect_disconnect_resets [of False None server_up signed_in]
  note change = walletEffect_disconnect_resets [of True "Some ''0xB0B''" server_up signed_in]
  from reset have
    "\<not> isAuthenticated (walletEffect server_up False None signed_in) \<and>
     userData (walletEffect server_up False None signed_in) = None \<and>
     requests (walletEffect server_up False None signed_in) = requests signed_in"
    by simp
  moreover from change have
    "isAuthenticated (walletEffect server_up True (Some ''0xB0B'') signed_in) =
       (status_fetch server_up = Response True (Inr True))"
    by auto
  ultimately show ?thesis
    using answer before by simp
qed

text \<open>
  The claim as written fails for a change of address. With a server that still accepts
  the session cookie, a signed-in session stays signed in; with a server that answers
  \<open>authenticated: false\<close>, the user data of the previous address stays in place.
\<close>

theorem walletEffect_address_change_counterexample:
  "isAuthenticated (walletEffect server_up True (Some ''0xB0B'') signed_in) = True \<and>
   userData (walletEffect server_up True (Some ''0xB0B'') signed_in) = Some alice \<and>
   userData (walletEffect session_expired True (Some ''0xB0B'') signed_in) = Some alice"
  by (simp add: walletEffect_def checkAuthStatus_def fetchUserData_def fetch_def
        session_expired_def server_up_def signed_in_def initial_state_def)

subsection \<open>The profile mutations\<close>

lemma createOrUpdateProfile_ok:
  "profile_post ev d = Response True body \<Longrightarrow>
     createOrUpdateProfile ev d s =
       (Returned,
        (snd (fetchUserData ev
                (s\<lparr>isLoading := True, error := None,
                   requests := requests s @ [PostProfile d]\<rparr>)))\<lparr>isLoading := False\<rparr>)"
  by (simp add: createOrUpdateProfile_def createOrUpdateProfile_try_def fetch_def
        after_fetchUserData)

lemma createOrUpdateProfile_rejected:
  "profile_post ev d = Rejected e \<Longrightarrow>
     createOrUpdateProfile ev d s =
       (Threw e,
        s\<lparr>requests := requests s @ [PostProfile d],
          error := Some (err_message e ''Profile update failed''), isLoading := False\<rparr>)"
  by (simp add: createOrUpdateProfile_def createOrUpdateProfile_try_def fetch_def)

lemma createOrUpdateProfile_status:
  "profile_post ev d = Response False body \<Longrightarrow>
     createOrUpdateProfile ev d s =
       (Threw (JsError ''Failed to update profile''),
        s\<lparr>requests := requests s @ [PostProfile d],
          error := Some ''Failed to update profile'', isLoading := False\<rparr>)"
  by (simp add: createOrUpdateProfile_def createOrUpdateProfile_try_def fetch_def)

lemma deleteProfile_ok:
  "profile_delete ev = Response True body \<Longrightarrow>
     deleteProfile ev s =
       (Returned,
        (snd (fetchUserData ev
                (s\<lparr>isLoading := True, error := None,
                   requests := requests s @ [DeleteProfile]\<rparr>)))\<lparr>isLoading := False\<rparr>)"
  by (simp add: deleteProfile_def deleteProfile_try_def fetch_def after_fetchUserData)

lemma deleteProfile_rejected:
  "profile_delete ev = Rejected e \<Longrightarrow>
     deleteProfile ev s =
       (Threw e,
        s\<lparr>requests := requests s @ [DeleteProfile],
          error := Some (err_message e ''Profile deletion failed''), isLoading := False\<rparr>)"
  by (simp add: deleteProfile_def deleteProfile_try_def fetch_def)

lemma deleteProfile_status:
  "profile_delete ev = Response False body \<Longrightarrow>
     deleteProfile ev s =
       (Threw (JsError ''Failed to delete profile''),
        s\<lparr>requests := requests s @ [DeleteProfile],
          error := Some ''Failed to delete profile'', isLoading := False\<rparr>)"
  by (simp add: deleteProfile_def deleteProfile_try_def fetch_def)

text \<open>What the refresh after a mutation leaves in the state.\<close>

lemma refreshed:
  "requests ((snd (fetchUserData ev s))\<lparr>isLoading := False\<rparr>) = requests s @ [GetProfile]"
  "error ((snd (fetchUserData ev s))\<lparr>isLoading := False\<rparr>) = error s"
  "isAuthenticated ((snd (fetchUserData ev s))\<lparr>isLoading := False\<rparr>) = isAuthenticated s"
  "\<not> isLoading ((snd (fetchUserData ev s))\<lparr>isLoading := False\<rparr>)"
  "profile_get ev = Response True (Inr data) \<Longrightarrow>
     userData ((snd (fetchUserData ev s))\<lparr>isLoading := False\<rparr>) = data"
  "read_failed (profile_get ev) \<Longrightarrow>
     userData ((snd (fetchUserData ev s))\<lparr>isLoading := False\<rparr>) = None"
  by (simp_all add: fetchUserData_frame fetchUserData_stored fetchUserData_failed)

text \<open>
  Claim C9. For \<open>createOrUpdateProfile\<close> and for \<open>deleteProfile\<close>. On a 2xx response the
  operation runs \<open>fetchUserData\<close> after its own request and returns normally: the
  requests of the call are the mutation and one \<open>GET /a/profile\<close>, and \<open>userData\<close> is
  what that request gave (the parsed body of a 2xx answer, null when the refresh failed),
  with \<open>error\<close> null and \<open>isLoading\<close> false. On a failure the operation throws to its
  caller, the very value \<open>fetch\<close> was rejected with, or its own error when the status is
  not 2xx; the \<open>error\<close> field holds the message of what is thrown, \<open>isLoading\<close> is false,
  no refresh is made and the rest of the state is as before the call.
\<close>

theorem profile_mutations_refresh_or_raise:
  "(profile_post ev d = Response True body \<longrightarrow>
      fst (createOrUpdateProfile ev d s) = Returned \<and>
      snd (createOrUpdateProfile ev d s) =
        (snd (fetchUserData ev
                (s\<lparr>isLoading := True, error := None,
                   requests := requests s @ [PostProfile d]\<rparr>)))\<lparr>isLoading := False\<rparr> \<and>
      requests (snd (createOrUpdateProfile ev d s)) = requests s @ [PostProfile d, GetProfile] \<and>
      (profile_get ev = Response True (Inr data) \<longrightarrow>
         userData (snd (createOrUpdateProfile ev d s)) = data) \<and>
      (read_failed (profile_get ev) \<longrightarrow> userData (snd (createOrUpdateProfile ev d s)) = None) \<and>
      error (snd (createOrUpdateProfile ev d s)) = None \<and>
      \<not> isLoading (snd (createOrUpdateProfile ev d s))) \<and>
   (profile_post ev d = Rejected e \<longrightarrow>
      createOrUpdateProfile ev d s =
        (Threw e,
         s\<lparr>requests := requests s @ [PostProfile d],
           error := Some (err_message e ''Profile update failed''), isLoading := False\<rparr>)) \<and>
   (profile_post ev d = Response False body \<longrightarrow>
      createOrUpdateProfile ev d s =
        (Threw (JsError ''Failed to update profile''),
         s\<lparr>requests := requests s @ [PostProfile d],
           error := Some ''Failed to update profile'', isLoading := False\<rparr>)) \<and>
   (profile_delete ev = Response True body \<longrightarrow>
      fst (deleteProfile ev s) = Returned \<and>
      snd (deleteProfile ev s) =
        (snd (fetchUserData ev
                (s\<lparr>isLoading := True, error := None,
                   requests := requests s @ [DeleteProfile]\<rparr>)))\<lparr>isLoading := False\<rparr> \<and>
      requests (snd (deleteProfile ev s)) = requests s @ [DeleteProfile, GetProfile] \<and>
      (profile_get ev = Response True (Inr data) \<longrightarrow> userData (snd (deleteProfile ev s)) = data) \<and>
      (read_failed (profile_get ev) \<longrightarrow> userData (snd (deleteProfile ev s)) = None) \<and>
      error (snd (deleteProfile ev s)) = None \<and>
      \<not> isLoading (snd (deleteProfile ev s))) \<and>
   (profile_delete ev = Rejected e \<longrightarrow>
      deleteProfile ev s =
        (Threw e,
         s\<lparr>requests := requests s @ [DeleteProfile],
           error := Some (err_message e ''Profile deletion failed''), isLoading := False\<rparr>)) \<and>
   (profile_delete ev = Response False body \<longrightarrow>
      deleteProfile ev s =
        (Threw (JsError ''Failed to delete profile''),
         s\<lparr>requests := requests s @ [DeleteProfile],
           error := Some ''Failed to delete profile'', isLoading := False\<rparr>))"
proof -
  have "profile_post ev d = Response True body \<longrightarrow>
      fst (createOrUpdateProfile ev d s) = Returned \<and>
      snd (createOrUpdateProfile ev d s) =
        (snd (fetchUserData ev
                (s\<lparr>isLoading := True, error := None,
                   requests := requests s @ [PostProfile d]\<rparr>)))\<lparr>isLoading := False\<rparr> \<and>
      requests (snd (createOrUpdateProfile ev d s)) = requests s @ [PostProfile d, GetProfile] \<and>
      (profile_get ev = Response True (Inr data) \<longrightarrow>
         userData (snd (createOrUpdateProfile ev d s)) = data) \<and>
      (read_failed (profile_get ev) \<longrightarrow> userData (snd (createOrUpdateProfile ev d s)) = None) \<and>
      error (snd (createOrUpdateProfile ev d s)) = None \<and>
      \<not> isLoading (snd (createOrUpdateProfile ev d s))"
    by (simp add: createOrUpdateProfile_ok refreshed)
  moreover have "profile_delete ev = Response True body \<longrightarrow>
      fst (deleteProfile ev s) = Returned \<and>
      snd (deleteProfile ev s) =
        (snd (fetchUserData ev
                (s\<lparr>isLoading := True, error := None,
                   requests := requests s @ [DeleteProfile]\<rparr>)))\<lparr>isLoading := False\<rparr> \<and>
      requests (snd (deleteProfile ev s)) = requests s @ [DeleteProfile, GetProfile] \<and>
      (profile_get ev = Response True (Inr data) \<longrightarrow> userData (snd (deleteProfile ev s)) = data) \<and>
      (read_failed (profile_get ev) \<longrightarrow> userData (snd (deleteProfile ev s)) = None) \<and>
      error (snd (deleteProfile ev s)) = None \<and>
      \<not> isLoading (snd (deleteProfile ev s))"
    by (simp add: deleteProfile_ok refreshed)
  ultimately show ?thesis
    using createOrUpdateProfile_rejected [of ev d e s] createOrUpdateProfile_status [of ev d body s]
      deleteProfile_rejected [of ev e s] deleteProfile_status [of ev body s]
    by blast
qed

theorem profile_mutations_refresh_or_raise_witness:
  "profile_post server_up no_fields = Response True (Inr ()) \<and>
   profile_delete server_up = Response True (Inr ()) \<and>
   profile_get server_up = Response True (Inr (Some alice)) \<and>
   profile_post server_500 no_fields = Response False (Inr ()) \<and>
   profile_delete network_down = Rejected (JsError ''Failed to fetch'') \<and>
   fst (createOrUpdateProfile server_up no_fields initial_state) = Returned \<and>
   requests (snd (createOrUpdateProfile server_up no_fields initial_state)) =
     [PostProfile no_fields, GetProfile] \<and>
   userData (snd (createOrUpdateProfile server_up no_fields initial_state)) = Some alice \<and>
   fst (deleteProfile server_up initial_state) = Returned \<and>
   requests (snd (deleteProfile server_up initial_state)) = [DeleteProfile, GetProfile] \<and>
   userData (snd (deleteProfile server_up initial_state)) = Some alice \<and>
   createOrUpdateProfile server_500 no_fields initial_state =
     (Threw (JsError ''Failed to update profile''),
      initial_state\<lparr>requests := requests initial_state @ [PostProfile no_fields],
        error := Some ''Failed to update profile'', isLoading := False\<rparr>) \<and>
   deleteProfile network_down initial_state =
     (Threw (JsError ''Failed to fetch''),
      initial_state\<lparr>requests := requests initial_state @ [DeleteProfile],
        error := Some (err_message (JsError ''Failed to fetch'') ''Profile deletion failed''),
        isLoading := False\<rparr>)"
proof -
  have post_ok: "profile_post server_up no_fields = Response True (Inr ())"
    and delete_ok: "profile_delete server_up = Response True (Inr ())"
    and get_ok: "profile_get server_up = Response True (Inr (Some alice))"
    by (simp_all add: server_up_def)
  have post_500: "profile_post server_500 no_fields = Response False (Inr ())"
    by (simp add: server_500_def)
  have delete_down: "profile_delete network_down = Rejected (JsError ''Failed to fetch'')"
    by (simp add: network_down_def)
  have before: "requests initial_state = []"
    by (simp add: initial_state_def)
  note up = profile_mutations_refresh_or_raise
    [where ev = server_up and d = no_fields and s = initial_state
       and body = "Inr ()" and data = "Some alice"]
  note broken = profile_mutations_refresh_or_raise
    [where ev = server_500 and d = no_fields and s = initial_state and body = "Inr ()"]
  note down = profile_mutations_refresh_or_raise
    [where ev = network_down and d = no_fields and s = initial_state
       and e = "JsError ''Failed to fetch''"]
  from up post_ok get_ok have
    "fst (createOrUpdateProfile server_up no_fields initial_state) = Returned \<and>
     requests (snd (createOrUpdateProfile server_up no_fields initial_state)) =
       requests initial_state @ [PostProfile no_fields, GetProfile] \<and>
     userData (snd (createOrUpdateProfile server_up no_fields initial_state)) = Some alice"
    by blast
  moreover from up delete_ok get_ok have
    "fst (deleteProfile server_up initial_state) = Returned \<and>
     requests (snd (deleteProfile server_up initial_state)) =
       requests initial_state @ [DeleteProfile, GetProfile] \<and>
     userData (snd (deleteProfile server_up initial_state)) = Some alice"
    by blast
  moreover from broken post_500 have
    "createOrUpdateProfile server_500 no_fields initial_state =
       (Threw (JsError ''Failed to update profile''),
        initial_state\<lparr>requests := requests initial_state @ [PostProfile no_fields],
          error := Some ''Failed to update profile'', isLoading := False\<rparr>)"
    by blast
  moreover from down delete_down have
    "deleteProfile network_down initial_state =
       (Threw (JsError ''Failed to fetch''),
        initial_state\<lparr>requests := requests initial_state @ [DeleteProfile],
          error := Some (err_message (JsError ''Failed to fetch'') ''Profile deletion failed''),
          isLoading := False\<rparr>)"
    by blast
  ultimately show ?thesis
    using post_ok delete_ok get_ok post_500 delete_down before by simp
qed

section \<open>Properties of the profile form\<close>

text \<open>The two patterns and \<open>trim\<close> on some inputs.\<close>

lemma email_rx_accepts:
  "rx_test email_rx ''a@b.c''"
  "rx_test email_rx ''al@ma.il.org''"
  by code_simp+

lemma email_rx_refuses:
  "\<not> rx_test email_rx ''not-an-email''"
  "\<not> rx_test email_rx ''a@b''"
  "\<not> rx_test email_rx ''a@@b.c''"
  "\<not> rx_test email_rx ''a b@c.d''"
  "\<not> rx_test email_rx ''a@.c''"
  by code_simp+

lemma avatar_rx_examples:
  "rx_test avatar_rx ''http://a.png''"
  "rx_test avatar_rx ''HTTPS://A.JPEG''"
  "\<not> rx_test avatar_rx ''http://a.pdf''"
  "\<not> rx_test avatar_rx ''http://.jpg''"
  by code_simp+

lemma trim_examples:
  "trim ''  Alice Liddell  '' = ''Alice Liddell''"
  "trim [CHR 0x09, CHR ''a'', CHR 0x0A] = ''a''"
  "trim ''   '' = []"
  by code_simp+

text \<open>
  Claim C2, as amended. The validation is in the submit handler of the form, not in
  \<open>createOrUpdateProfile\<close>. When the three fields of the form are empty after trimming,
  or the trimmed email is not empty and does not match the email pattern,
  \<open>handleFormSubmit\<close> shows an alert and returns without calling
  \<open>createOrUpdateProfile\<close>: the state of the controller, with its list of requests and
  its \<open>error\<close> field, is the one from before, and the form is left as it is.
\<close>

theorem handleFormSubmit_rejects_invalid:
  assumes "(trim (form_name (profileForm ui)) = [] \<and>
            trim (form_email (profileForm ui)) = [] \<and>
            trim (form_avatar (profileForm ui)) = []) \<or>
           (trim (form_email (profileForm ui)) \<noteq> [] \<and>
            \<not> rx_test email_rx (trim (form_email (profileForm ui))))"
  shows "snd (handleFormSubmit ev (ui, s)) = s \<and>
         requests (snd (handleFormSubmit ev (ui, s))) = requests s \<and>
         (\<exists>msg. fst (handleFormSubmit ev (ui, s)) = alert msg ui)"
  using assms by (auto simp: handleFormSubmit_def Let_def)

theorem handleFormSubmit_rejects_invalid_witness:
  "trim (form_name (profileForm blank_form)) = [] \<and>
   trim (form_email (profileForm blank_form)) = [] \<and>
   trim (form_avatar (profileForm blank_form)) = [] \<and>
   trim (form_email (profileForm bad_email_form)) = ''not-an-email'' \<and>
   rx_test email_rx ''not-an-email'' = False \<and>
   snd (handleFormSubmit server_up (blank_form, signed_in)) = signed_in \<and>
   requests (snd (handleFormSubmit server_up (blank_form, signed_in))) = [] \<and>
   snd (handleFormSubmit server_up (bad_email_form, signed_in)) = signed_in \<and>
   requests (snd (handleFormSubmit server_up (bad_email_form, signed_in))) = []"
proof -
  have blank:
    "trim (form_name (profileForm blank_form)) = []"
    "trim (form_email (profileForm blank_form)) = []"
    "trim (form_avatar (profileForm blank_form)) = []"
    by (simp_all add: blank_form_def trim_def is_space_def)
  have email: "trim (form_email (profileForm bad_email_form)) = ''not-an-email''"
    by (simp add: bad_email_form_def trim_def is_space_def)
  have no_match: "rx_test email_rx ''not-an-email'' = False"
    by code_simp
  have before: "requests signed_in = []"
    by (simp add: signed_in_def initial_state_def)
  from blank have
    "snd (handleFormSubmit server_up (blank_form, signed_in)) = signed_in \<and>
     requests (snd (handleFormSubmit server_up (blank_form, signed_in))) = requests signed_in"
    using handleFormSubmit_rejects_invalid [of blank_form server_up signed_in] by blast
  moreover from email no_match have
    "snd (handleFormSubmit server_up (bad_email_form, signed_in)) = signed_in \<and>
     requests (snd (handleFormSubmit server_up (bad_email_form, signed_in))) = requests signed_in"
    using handleFormSubmit_rejects_invalid [of bad_email_form server_up signed_in] by auto
  ultimately show ?thesis
    using blank email no_match before by simp
qed

text \<open>
  The claim as written fails for \<open>createOrUpdateProfile\<close> itself, which validates
  nothing: called with no field at all, or with the email \<open>not-an-email\<close>, it sends the
  \<open>POST\<close>, then refreshes the user data and returns normally.
\<close>

theorem createOrUpdateProfile_unvalidated_counterexample:
  "fst (createOrUpdateProfile server_up no_fields initial_state) = Returned \<and>
   requests (snd (createOrUpdateProfile server_up no_fields initial_state)) =
     [PostProfile no_fields, GetProfile] \<and>
   error (snd (createOrUpdateProfile server_up no_fields initial_state)) = None \<and>
   fst (createOrUpdateProfile server_up bad_email initial_state) = Returned \<and>
   requests (snd (createOrUpdateProfile server_up bad_email initial_state)) =
     [PostProfile bad_email, GetProfile] \<and>
   error (snd (createOrUpdateProfile server_up bad_email initial_state)) = None"
  by (simp add: createOrUpdateProfile_def createOrUpdateProfile_try_def fetchUserData_def
        fetch_def server_up_def initial_state_def)

end
